theory Spec2Isabelle
  imports Main "HOL-Library.Word"
begin

section \<open>Xiaomi FPC fingerprint driver: recovery engine, USB transport, session library\<close>

text \<open>
  A shallow embedding of three files of the repository:
  \<^item> \<^verbatim>\<open>fp_xiaomi_recovery.c\<close>: the recovery context, the three repair strategies, the
    recovery work function, its deadline timer and the trigger;
  \<^item> \<^verbatim>\<open>fp_xiaomi_driver.c\<close>: the device state, the bulk transfer, device information,
    the initialisation work and the character device's read and write;
  \<^item> \<^verbatim>\<open>libfp_xiaomi.c\<close>: the session handle, close, enrolment start, verify, identify
    and the template list.

  C \<^verbatim>\<open>int\<close> return codes are \<^typ>\<open>int\<close> (no arithmetic is done on them); counters
  that the code increments are words of their width, so that \<open>+\<close> wraps as the
  kernel's atomic operations do. Where structures are allocated and freed, pointers
  are \<^typ>\<open>nat option\<close> (\<open>None\<close> is NULL) into an explicit store. Each function is
  first given as one sequential run. The recovery file's \<^verbatim>\<open>recovery_lock\<close> is modelled:
  its threads (callers of the trigger, workers, the timer) interleave in a step function
  that takes and releases the lock where the code does. The other mutexes and the
  spinlock protect single sequential runs and are not modelled.
\<close>

subsection \<open>Error numbers of the kernel and the C library\<close>

definition EIO :: int where "EIO = 5"
definition ENOMEM :: int where "ENOMEM = 12"
definition EFAULT :: int where "EFAULT = 14"
definition EBUSY :: int where "EBUSY = 16"
definition ENODEV :: int where "ENODEV = 19"
definition EINVAL :: int where "EINVAL = 22"
definition EPIPE :: int where "EPIPE = 32"
definition ECOMM :: int where "ECOMM = 70"
definition ETIMEDOUT :: int where "ETIMEDOUT = 110"

subsection \<open>fp\_xiaomi\_recovery.c: data\<close>

definition FP_RECOVERY_MAX_ATTEMPTS :: nat where "FP_RECOVERY_MAX_ATTEMPTS = 3"
definition FP_RECOVERY_TIMEOUT_MS :: nat where "FP_RECOVERY_TIMEOUT_MS = 5000"
definition FP_HARDWARE_RESET_DELAY_MS :: nat where "FP_HARDWARE_RESET_DELAY_MS = 100"
definition FP_COMM_RETRY_DELAY_MS :: nat where "FP_COMM_RETRY_DELAY_MS = 50"

text \<open>
  Modelled from the spec: \<^verbatim>\<open>enum fp_error_type\<close> is used by the recovery file and declared
  nowhere under src/. The spec's error classes are HardwareFailure,
  CommunicationFailure, StateCorruption, Timeout and Unknown; \<^verbatim>\<open>FP_ERROR_NONE\<close> is the
  value the state recovery stores. Every constructor other than the four the
  \<^verbatim>\<open>switch\<close> names takes its \<^verbatim>\<open>default\<close> branch.
\<close>

datatype fp_error_type =
    FP_ERROR_NONE
  | FP_ERROR_HARDWARE_FAILURE
  | FP_ERROR_COMMUNICATION
  | FP_ERROR_STATE_CORRUPTION
  | FP_ERROR_TIMEOUT
  | FP_ERROR_UNKNOWN

text \<open>
  The recovery file reads and writes five fields of \<^verbatim>\<open>struct fp_xiaomi_device\<close>:
  \<^verbatim>\<open>state\<close>, \<^verbatim>\<open>capture_in_progress\<close>, \<^verbatim>\<open>last_error\<close>, \<^verbatim>\<open>recovery_count\<close> and
  \<^verbatim>\<open>device_failed\<close>. The structure it is compiled against is not under src/ (the one in
  the driver file has only \<^verbatim>\<open>state\<close> of these), so the record below holds exactly the
  fields the file touches, the state as the integer of the header's
  \<^verbatim>\<open>#define FP_STATE_...\<close> lines and the success counter as a 32-bit counter. The
  extension of the record stands for the rest of the structure and for the hardware
  behind it: the operations the file calls and does not define act on it.
\<close>

record fp_recovery_device =
  rdev_state :: int
  capture_in_progress :: bool
  rdev_last_error :: fp_error_type
  recovery_count :: "32 word"
  device_failed :: bool

definition STATE_ERROR :: int where
  \<comment> \<open>\<^verbatim>\<open>#define FP_STATE_ERROR 5\<close> of fp\_xiaomi\_driver.h\<close>
  "STATE_ERROR = 5"

text \<open>
  What the file calls and does not define: power control, the communication self-test,
  the interface reset, protocol initialisation, the two-argument device information
  query, full initialisation and \<^verbatim>\<open>msleep\<close>; and the constant
  \<^verbatim>\<open>FP_STATE_UNINITIALIZED\<close>. They are parameters. Each operation returns its
  \<^verbatim>\<open>int\<close> and the device as it leaves it.
\<close>

record 'a recovery_hw =
  FP_STATE_UNINITIALIZED :: int
  fp_xiaomi_power_off :: "'a fp_recovery_device_scheme \<Rightarrow> int \<times> 'a fp_recovery_device_scheme"
  fp_xiaomi_power_on :: "'a fp_recovery_device_scheme \<Rightarrow> int \<times> 'a fp_recovery_device_scheme"
  fp_xiaomi_test_communication ::
    "'a fp_recovery_device_scheme \<Rightarrow> int \<times> 'a fp_recovery_device_scheme"
  fp_xiaomi_reset_interface ::
    "'a fp_recovery_device_scheme \<Rightarrow> int \<times> 'a fp_recovery_device_scheme"
  fp_xiaomi_init_protocol ::
    "'a fp_recovery_device_scheme \<Rightarrow> int \<times> 'a fp_recovery_device_scheme"
  query_device_info :: "'a fp_recovery_device_scheme \<Rightarrow> int \<times> 'a fp_recovery_device_scheme"
  fp_xiaomi_initialize :: "'a fp_recovery_device_scheme \<Rightarrow> int \<times> 'a fp_recovery_device_scheme"
  msleep :: "nat \<Rightarrow> 'a fp_recovery_device_scheme \<Rightarrow> 'a fp_recovery_device_scheme"

text \<open>
  \<^verbatim>\<open>struct fp_recovery_context\<close>. \<^verbatim>\<open>dev\<close> is a pointer; \<^verbatim>\<open>recovery_work\<close> is the
  work item, here whether it is queued; \<^verbatim>\<open>recovery_timer\<close> is the timer, here the
  delay in milliseconds it was last armed with, \<open>None\<close> when it is not pending.
\<close>

record fp_recovery_context =
  dev :: "nat option"
  recovery_work :: bool
  recovery_timer :: "nat option"
  recovery_attempts :: "32 word"
  last_error :: fp_error_type
  recovery_in_progress :: bool

text \<open>
  The memory the file works on: the global \<^verbatim>\<open>g_recovery_ctx\<close> (\<open>None\<close> is NULL) and the
  device structures by address.
\<close>

record 'a recovery_world =
  g_recovery_ctx :: "fp_recovery_context option"
  devices :: "nat \<Rightarrow> 'a fp_recovery_device_scheme option"

subsection \<open>fp\_xiaomi\_recovery.c: the repair strategies\<close>

text \<open>
  The \<^verbatim>\<open>for\<close> loop of \<^verbatim>\<open>fp_hardware_reset_sequence\<close> from a given value of
  \<^verbatim>\<open>attempt\<close>; each \<^verbatim>\<open>continue\<close> is the recursive call.
\<close>

function hardware_reset_loop ::
  "'a recovery_hw \<Rightarrow> nat \<Rightarrow> 'a fp_recovery_device_scheme \<Rightarrow> int \<times> 'a fp_recovery_device_scheme"
where
  "hardware_reset_loop hw attempt d =
    (if attempt < FP_RECOVERY_MAX_ATTEMPTS then
       (let d0 = (if attempt > 0
                  then msleep hw (FP_HARDWARE_RESET_DELAY_MS * (attempt + 1)) d else d)
        in case fp_xiaomi_power_off hw d0 of (ret1, d1) \<Rightarrow>
          if ret1 \<noteq> 0 then hardware_reset_loop hw (attempt + 1) d1
          else case fp_xiaomi_power_on hw (msleep hw 100 d1) of (ret2, d2) \<Rightarrow>
            if ret2 \<noteq> 0 then hardware_reset_loop hw (attempt + 1) d2
            else case fp_xiaomi_test_communication hw d2 of (ret3, d3) \<Rightarrow>
              if ret3 = 0 then (0, d3)
              else hardware_reset_loop hw (attempt + 1) d3)
     else (- EIO, d))"
  by pat_completeness auto
termination
  by (relation "measure (\<lambda>(hw, attempt, d). FP_RECOVERY_MAX_ATTEMPTS - attempt)") auto

definition fp_hardware_reset_sequence ::
  "'a recovery_hw \<Rightarrow> 'a fp_recovery_device_scheme \<Rightarrow> int \<times> 'a fp_recovery_device_scheme"
where
  "fp_hardware_reset_sequence hw d = hardware_reset_loop hw 0 d"

function communication_recovery_loop ::
  "'a recovery_hw \<Rightarrow> nat \<Rightarrow> 'a fp_recovery_device_scheme \<Rightarrow> int \<times> 'a fp_recovery_device_scheme"
where
  "communication_recovery_loop hw attempt d =
    (if attempt < FP_RECOVERY_MAX_ATTEMPTS then
       (let d0 = (if attempt > 0
                  then msleep hw (FP_COMM_RETRY_DELAY_MS * (attempt + 1)) d else d)
        in case fp_xiaomi_reset_interface hw d0 of (ret1, d1) \<Rightarrow>
          if ret1 \<noteq> 0 then communication_recovery_loop hw (attempt + 1) d1
          else case fp_xiaomi_init_protocol hw d1 of (ret2, d2) \<Rightarrow>
            if ret2 \<noteq> 0 then communication_recovery_loop hw (attempt + 1) d2
            else case query_device_info hw d2 of (ret3, d3) \<Rightarrow>
              if ret3 = 0 then (0, d3)
              else communication_recovery_loop hw (attempt + 1) d3)
     else (- ECOMM, d))"
  by pat_completeness auto
termination
  by (relation "measure (\<lambda>(hw, attempt, d). FP_RECOVERY_MAX_ATTEMPTS - attempt)") auto

definition fp_communication_recovery ::
  "'a recovery_hw \<Rightarrow> 'a fp_recovery_device_scheme \<Rightarrow> int \<times> 'a fp_recovery_device_scheme"
where
  "fp_communication_recovery hw d = communication_recovery_loop hw 0 d"

definition fp_state_recovery ::
  "'a recovery_hw \<Rightarrow> 'a fp_recovery_device_scheme \<Rightarrow> int \<times> 'a fp_recovery_device_scheme"
where
  "fp_state_recovery hw d =
    fp_xiaomi_initialize hw
      (d\<lparr>rdev_state := FP_STATE_UNINITIALIZED hw, capture_in_progress := False,
         rdev_last_error := FP_ERROR_NONE\<rparr>)"

text \<open>The \<^verbatim>\<open>switch\<close> of the work function: the strategy by error type.\<close>

fun recovery_strategy ::
  "'a recovery_hw \<Rightarrow> fp_error_type \<Rightarrow> 'a fp_recovery_device_scheme
    \<Rightarrow> int \<times> 'a fp_recovery_device_scheme"
where
  "recovery_strategy hw FP_ERROR_HARDWARE_FAILURE d = fp_hardware_reset_sequence hw d"
| "recovery_strategy hw FP_ERROR_COMMUNICATION d = fp_communication_recovery hw d"
| "recovery_strategy hw FP_ERROR_STATE_CORRUPTION d = fp_state_recovery hw d"
| "recovery_strategy hw FP_ERROR_TIMEOUT d =
    (case fp_communication_recovery hw d of (ret, d1) \<Rightarrow>
       if ret \<noteq> 0 then fp_hardware_reset_sequence hw d1 else (ret, d1))"
| "recovery_strategy hw _ d = fp_state_recovery hw d"

subsection \<open>fp\_xiaomi\_recovery.c: work function, timer and trigger\<close>

text \<open>
  \<^verbatim>\<open>fp_recovery_work_func\<close> as one sequential run. The context is the global one (the
  work item lies inside it); the workqueue has taken the item off the queue before it
  calls the function. \<open>None\<close> is a run that follows a NULL or dangling pointer: no
  context, or a context whose \<^verbatim>\<open>dev\<close> points at no device structure while a run is in
  progress. The whole body runs between \<^verbatim>\<open>mutex_lock\<close> and \<^verbatim>\<open>mutex_unlock\<close> of
  \<^verbatim>\<open>recovery_lock\<close>; the thread model below takes the lock before the flag is tested
  and holds it until the body is done.
\<close>

definition fp_recovery_work_func ::
  "'a recovery_hw \<Rightarrow> 'a recovery_world \<Rightarrow> 'a recovery_world option"
where
  "fp_recovery_work_func hw w =
    (case g_recovery_ctx w of
       None \<Rightarrow> None
     | Some ctx0 \<Rightarrow>
        (let ctx = ctx0\<lparr>recovery_work := False\<rparr> in
         if \<not> recovery_in_progress ctx then Some (w\<lparr>g_recovery_ctx := Some ctx\<rparr>)
         else case dev ctx of
           None \<Rightarrow> None
         | Some p \<Rightarrow>
            (case devices w p of
               None \<Rightarrow> None
             | Some d \<Rightarrow>
                (case recovery_strategy hw (last_error ctx) d of (ret, d1) \<Rightarrow>
                   if ret = 0 then
                     Some (w\<lparr>g_recovery_ctx :=
                                Some (ctx\<lparr>recovery_attempts := 0,
                                          recovery_in_progress := False\<rparr>),
                             devices :=
                                (devices w)(p \<mapsto> d1\<lparr>recovery_count := recovery_count d1 + 1\<rparr>)\<rparr>)
                   else
                     (let attempts = recovery_attempts ctx + 1;
                          d2 = (if word_of_nat FP_RECOVERY_MAX_ATTEMPTS \<le>s attempts
                                then d1\<lparr>rdev_state := STATE_ERROR, device_failed := True\<rparr>
                                else d1)
                      in Some (w\<lparr>g_recovery_ctx :=
                                   Some (ctx\<lparr>recovery_attempts := attempts,
                                             recovery_in_progress := False\<rparr>),
                                 devices := (devices w)(p \<mapsto> d2)\<rparr>))))))"


text \<open>
  \<^verbatim>\<open>fp_xiaomi_trigger_recovery\<close> as one sequential run. In the program the argument
  check comes first, without the lock; \<^verbatim>\<open>mutex_lock(&g_recovery_ctx->recovery_lock)\<close>
  follows, and the in-progress test, the attempt test and the start of a run are all
  made under the lock. The thread model below makes the argument check one step and the
  rest a second step that needs the lock to be free.
\<close>

definition fp_xiaomi_trigger_recovery ::
  "'a recovery_world \<Rightarrow> nat option \<Rightarrow> fp_error_type \<Rightarrow> int \<times> 'a recovery_world"
where
  "fp_xiaomi_trigger_recovery w dev_p error_type =
    (case g_recovery_ctx w of
       None \<Rightarrow> (- EINVAL, w)
     | Some ctx \<Rightarrow>
        if dev_p = None then (- EINVAL, w)
        else if recovery_in_progress ctx then (- EBUSY, w)
        else if word_of_nat FP_RECOVERY_MAX_ATTEMPTS \<le>s recovery_attempts ctx
          then (- ENODEV, w)
        else (0, w\<lparr>g_recovery_ctx :=
                     Some (ctx\<lparr>dev := dev_p, last_error := error_type,
                               recovery_in_progress := True,
                               recovery_timer := Some FP_RECOVERY_TIMEOUT_MS,
                               recovery_work := True\<rparr>)\<rparr>))"

definition fp_xiaomi_recovery_available :: "'a recovery_world \<Rightarrow> bool" where
  "fp_xiaomi_recovery_available w =
    (case g_recovery_ctx w of
       None \<Rightarrow> False
     | Some ctx \<Rightarrow> recovery_attempts ctx <s word_of_nat FP_RECOVERY_MAX_ATTEMPTS)"

subsection \<open>fp\_xiaomi\_recovery.c: threads and the recovery lock\<close>









subsection \<open>fp\_xiaomi\_driver.c: data\<close>

definition FP_XIAOMI_BUFFER_SIZE :: nat where "FP_XIAOMI_BUFFER_SIZE = 4096"
definition FP_XIAOMI_TIMEOUT_MS :: nat where "FP_XIAOMI_TIMEOUT_MS = 5000"
definition FP_XIAOMI_RETRY_COUNT :: nat where "FP_XIAOMI_RETRY_COUNT = 3"
definition FP_BULK_IN_EP :: int where "FP_BULK_IN_EP = 129"
definition FP_BULK_OUT_EP :: int where "FP_BULK_OUT_EP = 2"

datatype fp_device_state =
    FP_STATE_DISCONNECTED
  | FP_STATE_INITIALIZING
  | FP_STATE_READY
  | FP_STATE_CAPTURING
  | FP_STATE_PROCESSING
  | FP_STATE_ERROR
  | FP_STATE_SUSPENDED

text \<open>
  The fields of \<^verbatim>\<open>struct fp_xiaomi_device\<close> that hold data. The kernel objects of the
  structure (USB handles, locks, character device, URBs, work items, wait queues) are
  not data of the model; the two bulk buffers are memory the structure points to and
  live in the world below.
\<close>

record fp_xiaomi_device =
  state :: fp_device_state
  open_count :: "32 word"
  error_count :: "32 word"
  retry_count :: "32 word"
  last_activity :: "64 word"
  pm_suspended :: bool
  firmware_version :: string
  firmware_loaded :: bool
  image_width :: "16 word"
  image_height :: "16 word"
  template_count :: "8 word"
  device_flags :: "32 word"

text \<open>
  A pipe is a direction (\<open>True\<close> for \<^verbatim>\<open>usb_sndbulkpipe\<close>) and an endpoint. An event
  is one thing the driver does towards the rest of the kernel: a bulk message (pipe,
  buffer handed over, length, timeout), a cleared halt, the state transition it logs, the
  two wake-ups, a sleep, a firmware request.
\<close>

type_synonym pipe = "bool \<times> int"

datatype event =
    Usb_bulk_msg pipe "8 word list" int nat
  | Usb_clear_halt pipe
  | State_transition fp_device_state fp_device_state
  | Wake_up_read
  | Wake_up_write
  | Msleep nat
  | Request_firmware string

text \<open>
  What the kernel answers, as a function of everything the driver has done so far:
  \<^verbatim>\<open>usb_bulk_msg\<close> gives its return value, \<^verbatim>\<open>actual_length\<close> (a count of bytes,
  never negative) and the buffer as it leaves it; \<^verbatim>\<open>jiffies\<close> is the clock;
  \<^verbatim>\<open>request_firmware\<close> gives its return value.
\<close>

record usb_env =
  usb_bulk_msg :: "event list \<Rightarrow> pipe \<Rightarrow> 8 word list \<Rightarrow> int \<Rightarrow> int \<times> nat \<times> 8 word list"
  jiffies :: "event list \<Rightarrow> 64 word"
  request_firmware :: "event list \<Rightarrow> string \<Rightarrow> int"

record driver_world =
  device :: fp_xiaomi_device
  bulk_in_buffer :: "8 word list"
  bulk_out_buffer :: "8 word list"
  trace :: "event list"

text \<open>
  The driver has one device structure, the one of the world; a pointer to it is either
  NULL or that structure.
\<close>

datatype dev_ptr = NULL | Dev

subsection \<open>fp\_xiaomi\_driver.c: state and transport\<close>

definition fp_xiaomi_set_state :: "usb_env \<Rightarrow> fp_device_state \<Rightarrow> driver_world \<Rightarrow> driver_world"
where
  "fp_xiaomi_set_state env new_state w =
    (let old_state = state (device w)
     in w\<lparr>device := (device w)\<lparr>state := new_state, last_activity := jiffies env (trace w)\<rparr>,
          trace := trace w @ [State_transition old_state new_state, Wake_up_read,
                              Wake_up_write]\<rparr>)"

definition fp_xiaomi_get_state :: "driver_world \<Rightarrow> fp_device_state" where
  "fp_xiaomi_get_state w = state (device w)"

text \<open>The \<^verbatim>\<open>switch (ret)\<close> of a failed transfer.\<close>

definition transfer_error_action :: "usb_env \<Rightarrow> int \<Rightarrow> pipe \<Rightarrow> driver_world \<Rightarrow> driver_world"
where
  "transfer_error_action env ret p w =
    (if ret = - ETIMEDOUT then w
     else if ret = - ENODEV then fp_xiaomi_set_state env FP_STATE_DISCONNECTED w
     else if ret = - EPIPE then w\<lparr>trace := trace w @ [Usb_clear_halt p]\<rparr>
     else w)"

text \<open>
  \<^verbatim>\<open>fp_xiaomi_bulk_transfer\<close> returns its \<^verbatim>\<open>int\<close>, the buffer as the call leaves it
  and the world.
\<close>

definition fp_xiaomi_bulk_transfer ::
  "usb_env \<Rightarrow> driver_world \<Rightarrow> dev_ptr \<Rightarrow> 8 word list option \<Rightarrow> int \<Rightarrow> int \<Rightarrow> bool
    \<Rightarrow> int \<times> 8 word list option \<times> driver_world"
where
  "fp_xiaomi_bulk_transfer env w dev_p buffer len endpoint is_write =
    (case (dev_p, buffer) of
       (Dev, Some buf) \<Rightarrow>
         if len \<le> 0 then (- EINVAL, buffer, w)
         else if fp_xiaomi_get_state w = FP_STATE_DISCONNECTED then (- ENODEV, buffer, w)
         else
           (let p = (is_write, endpoint) in
            case usb_bulk_msg env (trace w) p buf len of (ret, actual_length, buf') \<Rightarrow>
              (let w1 = w\<lparr>trace := trace w @ [Usb_bulk_msg p buf len FP_XIAOMI_TIMEOUT_MS]\<rparr>
               in if ret < 0 then
                    (ret, Some buf',
                     transfer_error_action env ret p
                       (w1\<lparr>device := (device w1)\<lparr>error_count := error_count (device w1) + 1\<rparr>\<rparr>))
                  else if int actual_length \<noteq> len \<and> is_write then (- EIO, Some buf', w1)
                  else (int actual_length, Some buf', w1)))
     | _ \<Rightarrow> (- EINVAL, buffer, w))"

subsection \<open>fp\_xiaomi\_driver.c: firmware, device information, initialisation\<close>

definition fp_xiaomi_load_firmware :: "usb_env \<Rightarrow> driver_world \<Rightarrow> int \<times> driver_world" where
  "fp_xiaomi_load_firmware env w =
    (let fw_name = ''fpc_xiaomi_10a5_9201.bin'';
         w1 = w\<lparr>trace := trace w @ [Request_firmware fw_name]\<rparr>
     in if request_firmware env (trace w) fw_name < 0 then
          (let w2 = w1\<lparr>trace := trace w1 @ [Request_firmware ''fpc_xiaomi_generic.bin'']\<rparr>
           in if request_firmware env (trace w1) ''fpc_xiaomi_generic.bin'' < 0
              then (0, w2\<lparr>device := (device w2)\<lparr>firmware_loaded := False\<rparr>\<rparr>)
              else (0, w2\<lparr>device := (device w2)\<lparr>firmware_loaded := True\<rparr>\<rparr>))
        else (0, w1\<lparr>device := (device w1)\<lparr>firmware_loaded := True\<rparr>\<rparr>))"

text \<open>\<^verbatim>\<open>%d\<close> of a byte, and a byte of a buffer (0 beyond what the buffer holds).\<close>

definition digit_char :: "nat \<Rightarrow> char" where
  "digit_char n = char_of (48 + n)"

function dec :: "nat \<Rightarrow> string" where
  "dec n = (if n < 10 then [digit_char n] else dec (n div 10) @ [digit_char (n mod 10)])"
  by pat_completeness auto
termination
  by (relation "measure (\<lambda>n. n)") auto

definition byte_at :: "8 word list \<Rightarrow> nat \<Rightarrow> 8 word" where
  "byte_at b i = (if i < length b then b ! i else 0)"

text \<open>The response parser of \<^verbatim>\<open>fp_xiaomi_get_device_info\<close>.\<close>

definition parse_device_info :: "8 word list \<Rightarrow> fp_xiaomi_device \<Rightarrow> fp_xiaomi_device" where
  "parse_device_info r d =
    d\<lparr>firmware_version :=
        take 31 (dec (unat (byte_at r 8)) @ ''.'' @ dec (unat (byte_at r 9)) @ ''.'' @
                 dec (unat (byte_at r 10)) @ ''.'' @ dec (unat (byte_at r 11))),
      image_width := or (push_bit 8 (ucast (byte_at r 16))) (ucast (byte_at r 17)),
      image_height := or (push_bit 8 (ucast (byte_at r 18))) (ucast (byte_at r 19)),
      template_count := byte_at r 20,
      device_flags :=
        or (or (or (push_bit 24 (ucast (byte_at r 24))) (push_bit 16 (ucast (byte_at r 25))))
               (push_bit 8 (ucast (byte_at r 26))))
           (ucast (byte_at r 27))\<rparr>"

text \<open>
  \<^verbatim>\<open>fp_xiaomi_get_device_info\<close>. The response buffer is 64 bytes of stack that the
  code does not initialise; the model hands zeros to the kernel, whose answer says what
  the buffer holds afterwards.
\<close>

definition fp_xiaomi_get_device_info :: "usb_env \<Rightarrow> driver_world \<Rightarrow> int \<times> driver_world" where
  "fp_xiaomi_get_device_info env w =
    (let cmd_buffer = 1 # replicate 15 0 in
     case fp_xiaomi_bulk_transfer env w Dev (Some cmd_buffer) 16 FP_BULK_OUT_EP True of
       (ret1, _, w1) \<Rightarrow>
         if ret1 < 0 then (ret1, w1)
         else
           (case fp_xiaomi_bulk_transfer env w1 Dev (Some (replicate 64 0)) 64 FP_BULK_IN_EP
                   False of
              (ret2, resp, w2) \<Rightarrow>
                if ret2 < 0 then (ret2, w2)
                else if ret2 \<ge> 32 then
                  (0, w2\<lparr>device :=
                          parse_device_info (case resp of Some r \<Rightarrow> r | None \<Rightarrow> [])
                            (device w2)\<rparr>)
                else (0, w2)))"

text \<open>One pass of the body of the \<^verbatim>\<open>while\<close> loop, up to the \<^verbatim>\<open>retry\<close> label.\<close>

definition init_pass :: "usb_env \<Rightarrow> driver_world \<Rightarrow> int \<times> driver_world" where
  "init_pass env w =
    (case fp_xiaomi_load_firmware env w of (ret1, w1) \<Rightarrow>
       if ret1 < 0 then (ret1, w1) else fp_xiaomi_get_device_info env w1)"

text \<open>What follows the \<^verbatim>\<open>retry\<close> label, the local counter apart.\<close>

definition init_retry :: "driver_world \<Rightarrow> driver_world" where
  "init_retry w =
    w\<lparr>device := (device w)\<lparr>retry_count := retry_count (device w) + 1\<rparr>,
      trace := trace w @ [Msleep 1000]\<rparr>"

text \<open>The \<^verbatim>\<open>while\<close> loop from a given value \<open>n\<close> of the local \<^verbatim>\<open>retry_count\<close>.\<close>

function init_loop :: "usb_env \<Rightarrow> nat \<Rightarrow> driver_world \<Rightarrow> driver_world" where
  "init_loop env n w =
    (if n < FP_XIAOMI_RETRY_COUNT then
       (case init_pass env w of (ret, w1) \<Rightarrow>
          if ret < 0 then init_loop env (n + 1) (init_retry w1)
          else fp_xiaomi_set_state env FP_STATE_READY w1)
     else fp_xiaomi_set_state env FP_STATE_ERROR w)"
  by pat_completeness auto
termination
  by (relation "measure (\<lambda>(env, n, w). FP_XIAOMI_RETRY_COUNT - n)") auto

definition fp_xiaomi_init_work :: "usb_env \<Rightarrow> driver_world \<Rightarrow> driver_world" where
  "fp_xiaomi_init_work env w =
     init_loop env 0 (fp_xiaomi_set_state env FP_STATE_INITIALIZING w)"

subsection \<open>fp\_xiaomi\_driver.c: read and write of the character device\<close>

text \<open>A copy of \<open>src\<close> over the start of \<open>dst\<close>.\<close>

definition overlay :: "'a list \<Rightarrow> 'a list \<Rightarrow> 'a list" where
  "overlay src dst = src @ drop (length src) dst"

text \<open>
  \<^verbatim>\<open>fp_xiaomi_read\<close>. \<open>file\<close> is \<^verbatim>\<open>file->private_data\<close>; \<open>user_room\<close> is how many
  bytes can be written at the user's address (\<^verbatim>\<open>copy_to_user\<close> fails beyond it). The
  result is the return value, the bytes copied to the user and the world.
\<close>

definition fp_xiaomi_read ::
  "usb_env \<Rightarrow> driver_world \<Rightarrow> dev_ptr \<Rightarrow> nat \<Rightarrow> nat \<Rightarrow> int \<times> 8 word list \<times> driver_world"
where
  "fp_xiaomi_read env w file count user_room =
    (if file = NULL \<or> count = 0 then (- EINVAL, [], w)
     else
       (let count1 = (if count > FP_XIAOMI_BUFFER_SIZE then FP_XIAOMI_BUFFER_SIZE else count)
        in if fp_xiaomi_get_state w \<noteq> FP_STATE_READY then (- ENODEV, [], w)
           else
             (case fp_xiaomi_bulk_transfer env w Dev (Some (bulk_in_buffer w)) (int count1)
                     FP_BULK_IN_EP False of
                (ret, buf, w1) \<Rightarrow>
                  (let w2 = w1\<lparr>bulk_in_buffer :=
                                 (case buf of Some b \<Rightarrow> b | None \<Rightarrow> bulk_in_buffer w1)\<rparr>
                   in if ret < 0 then (ret, [], w2)
                      else if nat ret > user_room
                        then (- EFAULT, take user_room (bulk_in_buffer w2), w2)
                      else (ret, take (nat ret) (bulk_in_buffer w2), w2)))))"

text \<open>
  \<^verbatim>\<open>fp_xiaomi_write\<close>. \<open>user\<close> is the readable memory at the user's address
  (\<^verbatim>\<open>copy_from_user\<close> fails when it is shorter than \<^verbatim>\<open>count\<close>).
\<close>

definition fp_xiaomi_write ::
  "usb_env \<Rightarrow> driver_world \<Rightarrow> dev_ptr \<Rightarrow> 8 word list \<Rightarrow> nat \<Rightarrow> int \<times> driver_world"
where
  "fp_xiaomi_write env w file user count =
    (if file = NULL \<or> count = 0 then (- EINVAL, w)
     else
       (let count1 = (if count > FP_XIAOMI_BUFFER_SIZE then FP_XIAOMI_BUFFER_SIZE else count)
        in if fp_xiaomi_get_state w \<noteq> FP_STATE_READY then (- ENODEV, w)
           else
             (let w1 = w\<lparr>bulk_out_buffer := overlay (take count1 user) (bulk_out_buffer w)\<rparr>
              in if length user < count1 then (- EFAULT, w1)
                 else
                   (case fp_xiaomi_bulk_transfer env w1 Dev (Some (bulk_out_buffer w1))
                           (int count1) FP_BULK_OUT_EP True of
                      (ret, buf, w2) \<Rightarrow>
                        (ret, w2\<lparr>bulk_out_buffer :=
                                   (case buf of Some b \<Rightarrow> b | None \<Rightarrow> bulk_out_buffer w2)\<rparr>)))))"

subsection \<open>libfp\_xiaomi.c: data\<close>

definition FP_XIAOMI_SUCCESS :: int where "FP_XIAOMI_SUCCESS = 0"
definition FP_XIAOMI_ERROR_DEVICE :: int where "FP_XIAOMI_ERROR_DEVICE = - 1"
definition FP_XIAOMI_ERROR_INVALID_PARAM :: int where "FP_XIAOMI_ERROR_INVALID_PARAM = - 11"
definition FP_XIAOMI_MAX_TEMPLATES :: nat where "FP_XIAOMI_MAX_TEMPLATES = 10"
definition FP_XIAOMI_MAX_NAME_LEN :: nat where "FP_XIAOMI_MAX_NAME_LEN = 32"
definition FP_QUALITY_MEDIUM :: "8 word" where "FP_QUALITY_MEDIUM = 50"
definition FP_TIMEOUT_DEFAULT :: "32 word" where "FP_TIMEOUT_DEFAULT = 5000"

text \<open>
  The three parameter blocks of fp\_xiaomi\_driver.h. The C structures share field
  names; the record fields carry the block's name in front.
\<close>

record fp_enroll_params =
  enroll_template_id :: "8 word"
  enroll_name :: string
  enroll_quality_threshold :: "8 word"
  enroll_max_attempts :: "8 word"
  enroll_timeout_ms :: "32 word"
  enroll_flags :: "32 word"

record fp_verify_params =
  verify_template_id :: "8 word"
  verify_quality_threshold :: "8 word"
  verify_timeout_ms :: "32 word"
  verify_flags :: "32 word"

record fp_identify_params =
  identify_quality_threshold :: "8 word"
  identify_timeout_ms :: "32 word"
  identify_flags :: "32 word"
  identify_matched_id :: "8 word"
  identify_confidence :: "8 word"
  identify_reserved :: "16 word"

datatype ioctl_request =
    FP_IOC_ENROLL_START fp_enroll_params
  | FP_IOC_VERIFY fp_verify_params
  | FP_IOC_IDENTIFY fp_identify_params
  | FP_IOC_LIST_TEMPLATES

text \<open>
  \<^verbatim>\<open>struct fp_xiaomi_device_internal\<close>, the mutex and the cached device information
  apart. The callback and its data are pointers; the thread is its identifier.
\<close>

record fp_xiaomi_device_internal =
  fd :: int
  device_path :: string
  initialized :: bool
  event_callback :: "nat option"
  callback_data :: "nat option"
  event_thread :: nat
  event_thread_running :: bool

text \<open>What the library asks of the system and of the thread library, in order.\<close>

datatype lib_call =
    Ioctl int ioctl_request
  | Close_fd int
  | Pthread_cancel nat
  | Pthread_join nat
  | Free nat

text \<open>
  The answers of the driver behind the descriptor, as functions of the calls made so
  far: the return value of \<^verbatim>\<open>ioctl\<close>, the ten bytes \<^verbatim>\<open>driver_list\<close> holds after a
  list request, and the match fields of an identify request.
\<close>

record lib_env =
  ioctl :: "lib_call list \<Rightarrow> int \<Rightarrow> ioctl_request \<Rightarrow> int"
  ioctl_driver_list :: "lib_call list \<Rightarrow> 8 word list"
  ioctl_identify_result :: "lib_call list \<Rightarrow> 8 word \<times> 8 word"

text \<open>
  The library's memory: the handles that are allocated, by address (\<^verbatim>\<open>free\<close> removes
  one), \<^verbatim>\<open>errno\<close>, and the calls made. A handle is a pointer, \<open>None\<close> for NULL. A
  library function returns \<open>None\<close> when it follows a handle that is not allocated: C
  gives such a call no behaviour.
\<close>

record lib_world =
  heap :: "nat \<Rightarrow> fp_xiaomi_device_internal option"
  errno :: int
  calls :: "lib_call list"

subsection \<open>libfp\_xiaomi.c: close\<close>

definition fp_xiaomi_close_device ::
  "lib_world \<Rightarrow> nat option \<Rightarrow> (int \<times> lib_world) option"
where
  "fp_xiaomi_close_device w handle =
    (case handle of
       None \<Rightarrow> Some (FP_XIAOMI_ERROR_INVALID_PARAM, w\<lparr>errno := EINVAL\<rparr>)
     | Some a \<Rightarrow>
        (case heap w a of
           None \<Rightarrow> None
         | Some d \<Rightarrow>
            if \<not> initialized d then Some (FP_XIAOMI_ERROR_INVALID_PARAM, w\<lparr>errno := EINVAL\<rparr>)
            else
              (let stop = (if event_thread_running d
                           then [Pthread_cancel (event_thread d), Pthread_join (event_thread d)]
                           else []);
                   shut = (if fd d \<ge> 0 then [Close_fd (fd d)] else []);
                   d1 = d\<lparr>event_thread_running := False,
                          fd := (if fd d \<ge> 0 then - 1 else fd d),
                          initialized := False\<rparr>;
                   w1 = w\<lparr>heap := (heap w)(a \<mapsto> d1), calls := calls w @ stop @ shut\<rparr>
               in Some (FP_XIAOMI_SUCCESS,
                        w1\<lparr>heap := (heap w1)(a := None), calls := calls w1 @ [Free a]\<rparr>))))"

subsection \<open>libfp\_xiaomi.c: enrolment start, verify, identify\<close>

definition fp_xiaomi_enroll_start ::
  "lib_env \<Rightarrow> lib_world \<Rightarrow> nat option \<Rightarrow> 8 word \<Rightarrow> string option \<Rightarrow> 32 word
    \<Rightarrow> (int \<times> lib_world) option"
where
  "fp_xiaomi_enroll_start env w handle template_id name timeout_ms =
    (case handle of
       None \<Rightarrow> Some (FP_XIAOMI_ERROR_INVALID_PARAM, w\<lparr>errno := EINVAL\<rparr>)
     | Some a \<Rightarrow>
        (case heap w a of
           None \<Rightarrow> None
         | Some d \<Rightarrow>
            if \<not> initialized d then Some (FP_XIAOMI_ERROR_INVALID_PARAM, w\<lparr>errno := EINVAL\<rparr>)
            else
              (let params =
                     \<lparr>enroll_template_id = template_id,
                      enroll_name =
                        (case name of
                           None \<Rightarrow> []
                         | Some n \<Rightarrow> take (FP_XIAOMI_MAX_NAME_LEN - 1) n),
                      enroll_quality_threshold = FP_QUALITY_MEDIUM,
                      enroll_max_attempts = 5,
                      enroll_timeout_ms =
                        (if timeout_ms \<noteq> 0 then timeout_ms else FP_TIMEOUT_DEFAULT),
                      enroll_flags = 0\<rparr>;
                   ret = ioctl env (calls w) (fd d) (FP_IOC_ENROLL_START params);
                   w1 = w\<lparr>calls := calls w @ [Ioctl (fd d) (FP_IOC_ENROLL_START params)]\<rparr>
               in if ret < 0 then Some (FP_XIAOMI_ERROR_DEVICE, w1)
                  else Some (FP_XIAOMI_SUCCESS, w1))))"

definition fp_xiaomi_verify ::
  "lib_env \<Rightarrow> lib_world \<Rightarrow> nat option \<Rightarrow> 8 word \<Rightarrow> 32 word \<Rightarrow> (int \<times> lib_world) option"
where
  "fp_xiaomi_verify env w handle template_id timeout_ms =
    (case handle of
       None \<Rightarrow> Some (FP_XIAOMI_ERROR_INVALID_PARAM, w\<lparr>errno := EINVAL\<rparr>)
     | Some a \<Rightarrow>
        (case heap w a of
           None \<Rightarrow> None
         | Some d \<Rightarrow>
            if \<not> initialized d then Some (FP_XIAOMI_ERROR_INVALID_PARAM, w\<lparr>errno := EINVAL\<rparr>)
            else
              (let params =
                     \<lparr>verify_template_id = template_id,
                      verify_quality_threshold = FP_QUALITY_MEDIUM,
                      verify_timeout_ms =
                        (if timeout_ms \<noteq> 0 then timeout_ms else FP_TIMEOUT_DEFAULT),
                      verify_flags = 0\<rparr>;
                   ret = ioctl env (calls w) (fd d) (FP_IOC_VERIFY params);
                   w1 = w\<lparr>calls := calls w @ [Ioctl (fd d) (FP_IOC_VERIFY params)]\<rparr>
               in if ret < 0 then Some (FP_XIAOMI_ERROR_DEVICE, w1)
                  else Some (FP_XIAOMI_SUCCESS, w1))))"

text \<open>
  \<^verbatim>\<open>fp_xiaomi_identify\<close>. The two output pointers are given by whether they are
  non-NULL; the result carries what is stored through each.
\<close>

definition fp_xiaomi_identify ::
  "lib_env \<Rightarrow> lib_world \<Rightarrow> nat option \<Rightarrow> bool \<Rightarrow> bool \<Rightarrow> 32 word
    \<Rightarrow> (int \<times> 8 word option \<times> 8 word option \<times> lib_world) option"
where
  "fp_xiaomi_identify env w handle matched_id confidence timeout_ms =
    (case handle of
       None \<Rightarrow> Some (FP_XIAOMI_ERROR_INVALID_PARAM, None, None, w\<lparr>errno := EINVAL\<rparr>)
     | Some a \<Rightarrow>
        (case heap w a of
           None \<Rightarrow> None
         | Some d \<Rightarrow>
            if \<not> initialized d
            then Some (FP_XIAOMI_ERROR_INVALID_PARAM, None, None, w\<lparr>errno := EINVAL\<rparr>)
            else
              (let params =
                     \<lparr>identify_quality_threshold = FP_QUALITY_MEDIUM,
                      identify_timeout_ms =
                        (if timeout_ms \<noteq> 0 then timeout_ms else FP_TIMEOUT_DEFAULT),
                      identify_flags = 0, identify_matched_id = 0, identify_confidence = 0,
                      identify_reserved = 0\<rparr>;
                   ret = ioctl env (calls w) (fd d) (FP_IOC_IDENTIFY params);
                   w1 = w\<lparr>calls := calls w @ [Ioctl (fd d) (FP_IOC_IDENTIFY params)]\<rparr>
               in if ret < 0 then Some (FP_XIAOMI_ERROR_DEVICE, None, None, w1)
                  else
                    (case ioctl_identify_result env (calls w1) of (m, c) \<Rightarrow>
                       Some (FP_XIAOMI_SUCCESS,
                             (if matched_id then Some m else None),
                             (if confidence then Some c else None), w1)))))"

subsection \<open>libfp\_xiaomi.c: the template list\<close>

text \<open>
  The \<^verbatim>\<open>for\<close> loop of \<^verbatim>\<open>fp_xiaomi_list_templates\<close> from given values of \<^verbatim>\<open>i\<close> and
  \<^verbatim>\<open>found_count\<close>. \<open>cap\<close> is \<^verbatim>\<open>*count\<close> on entry, \<open>ids\<close> the caller's array; a write
  beyond the end of that array has no behaviour (\<open>None\<close>).
\<close>

function list_loop ::
  "8 word list \<Rightarrow> nat \<Rightarrow> nat \<Rightarrow> nat \<Rightarrow> 8 word list \<Rightarrow> (nat \<times> 8 word list) option"
where
  "list_loop driver_list cap i found_count ids =
    (if i < FP_XIAOMI_MAX_TEMPLATES \<and> found_count < cap then
       (if byte_at driver_list i \<noteq> 0 then
          (if found_count < length ids
           then list_loop driver_list cap (i + 1) (found_count + 1)
                  (ids[found_count := byte_at driver_list i])
           else None)
        else list_loop driver_list cap (i + 1) found_count ids)
     else Some (found_count, ids))"
  by pat_completeness auto
termination
  by (relation "measure (\<lambda>(l, cap, i, f, ids). FP_XIAOMI_MAX_TEMPLATES - i)") auto

text \<open>
  \<^verbatim>\<open>fp_xiaomi_list_templates\<close>. The two output pointers are options: \<open>template_ids\<close>
  is the caller's array, \<open>count\<close> its capacity on entry. The result carries the array
  and the count as the call leaves them.
\<close>

definition fp_xiaomi_list_templates ::
  "lib_env \<Rightarrow> lib_world \<Rightarrow> nat option \<Rightarrow> 8 word list option \<Rightarrow> nat option
    \<Rightarrow> (int \<times> 8 word list option \<times> nat option \<times> lib_world) option"
where
  "fp_xiaomi_list_templates env w handle template_ids count =
    (case handle of
       None \<Rightarrow>
         Some (FP_XIAOMI_ERROR_INVALID_PARAM, template_ids, count, w\<lparr>errno := EINVAL\<rparr>)
     | Some a \<Rightarrow>
        (case heap w a of
           None \<Rightarrow> None
         | Some d \<Rightarrow>
            (case (initialized d, template_ids, count) of
               (True, Some ids, Some cap) \<Rightarrow>
                 (let ret = ioctl env (calls w) (fd d) FP_IOC_LIST_TEMPLATES;
                      w1 = w\<lparr>calls := calls w @ [Ioctl (fd d) FP_IOC_LIST_TEMPLATES]\<rparr>
                  in if ret < 0 then Some (FP_XIAOMI_ERROR_DEVICE, template_ids, count, w1)
                     else
                       (case list_loop (ioctl_driver_list env (calls w1)) cap 0 0 ids of
                          None \<Rightarrow> None
                        | Some (found_count, ids') \<Rightarrow>
                            Some (FP_XIAOMI_SUCCESS, Some ids', Some found_count, w1)))
             | _ \<Rightarrow>
                 Some (FP_XIAOMI_ERROR_INVALID_PARAM, template_ids, count,
                       w\<lparr>errno := EINVAL\<rparr>))))"

subsection \<open>Reading the call log\<close>

text \<open>The timeout a request carries to the driver, and the timeouts of a log in order.\<close>

fun request_timeout :: "ioctl_request \<Rightarrow> 32 word option" where
  "request_timeout (FP_IOC_ENROLL_START p) = Some (enroll_timeout_ms p)"
| "request_timeout (FP_IOC_VERIFY p) = Some (verify_timeout_ms p)"
| "request_timeout (FP_IOC_IDENTIFY p) = Some (identify_timeout_ms p)"
| "request_timeout FP_IOC_LIST_TEMPLATES = None"

fun submitted_timeouts :: "lib_call list \<Rightarrow> 32 word list" where
  "submitted_timeouts [] = []"
| "submitted_timeouts (Ioctl f q # cs) =
     (case request_timeout q of
        Some t \<Rightarrow> t # submitted_timeouts cs
      | None \<Rightarrow> submitted_timeouts cs)"
| "submitted_timeouts (_ # cs) = submitted_timeouts cs"

text \<open>The state transitions a trace records, in order.\<close>

fun state_changes :: "event list \<Rightarrow> (fp_device_state \<times> fp_device_state) list" where
  "state_changes [] = []"
| "state_changes (State_transition a b # es) = (a, b) # state_changes es"
| "state_changes (_ # es) = state_changes es"

text \<open>The non-zero entries of a slot array, in slot order.\<close>

definition nonzero_slots :: "8 word list \<Rightarrow> 8 word list" where
  "nonzero_slots l = filter (\<lambda>b. b \<noteq> 0) l"

subsection \<open>Concrete devices, kernels and sessions\<close>

text \<open>A device in the Ready state with its two 4096-byte buffers, and the same unplugged.\<close>

definition ready_device :: fp_xiaomi_device where
  "ready_device =
    \<lparr>state = FP_STATE_READY, open_count = 1, error_count = 0, retry_count = 0,
     last_activity = 0, pm_suspended = False, firmware_version = ''1.0.0.0'',
     firmware_loaded = False, image_width = 160, image_height = 160, template_count = 0,
     device_flags = 0\<rparr>"

definition ready_world :: driver_world where
  "ready_world =
    \<lparr>device = ready_device, bulk_in_buffer = replicate FP_XIAOMI_BUFFER_SIZE 0,
     bulk_out_buffer = replicate FP_XIAOMI_BUFFER_SIZE 0, trace = []\<rparr>"

definition unplugged_world :: driver_world where
  "unplugged_world = ready_world\<lparr>device := ready_device\<lparr>state := FP_STATE_DISCONNECTED\<rparr>\<rparr>"

text \<open>A kernel whose bulk messages all succeed one byte short; its clock reads 1000.\<close>

definition short_env :: usb_env where
  "short_env =
    \<lparr>usb_bulk_msg = (\<lambda>h p b l. (0, nat l - 1, b)), jiffies = (\<lambda>h. 1000),
     request_firmware = (\<lambda>h n. - 2)\<rparr>"

text \<open>A recovery context with a run in flight.\<close>

definition idle_rdev :: fp_recovery_device where
  "idle_rdev =
    \<lparr>rdev_state = 2, capture_in_progress = False, rdev_last_error = FP_ERROR_NONE,
     recovery_count = 0, device_failed = False\<rparr>"

definition busy_ctx :: fp_recovery_context where
  "busy_ctx =
    \<lparr>dev = Some 1, recovery_work = True, recovery_timer = Some 5000, recovery_attempts = 2,
     last_error = FP_ERROR_HARDWARE_FAILURE, recovery_in_progress = True\<rparr>"

definition busy_world :: "unit recovery_world" where
  "busy_world = \<lparr>g_recovery_ctx = Some busy_ctx, devices = (\<lambda>p. None)(1 \<mapsto> idle_rdev)\<rparr>"




text \<open>An open session with its notification thread running, and a driver that accepts
  every request and reports templates 1 and 2.\<close>

definition open_handle :: fp_xiaomi_device_internal where
  "open_handle =
    \<lparr>fd = 3, device_path = ''/dev/fp_xiaomi0'', initialized = True,
     event_callback = Some 7, callback_data = None, event_thread = 42,
     event_thread_running = True\<rparr>"

definition open_session :: lib_world where
  "open_session = \<lparr>heap = (\<lambda>a. None)(1 \<mapsto> open_handle), errno = 0, calls = []\<rparr>"

definition idle_driver :: lib_env where
  "idle_driver =
    \<lparr>ioctl = (\<lambda>h f q. 0),
     ioctl_driver_list = (\<lambda>h. [1, 2, 0, 0, 0, 0, 0, 0, 0, 0]),
     ioctl_identify_result = (\<lambda>h. (1, 90))\<rparr>"

text \<open>Hardware on which every repair operation fails.\<close>

definition dead_hw :: "unit recovery_hw" where
  "dead_hw =
    \<lparr>FP_STATE_UNINITIALIZED = 0,
     fp_xiaomi_power_off = (\<lambda>d. (- 1, d)), fp_xiaomi_power_on = (\<lambda>d. (- 1, d)),
     fp_xiaomi_test_communication = (\<lambda>d. (- 1, d)),
     fp_xiaomi_reset_interface = (\<lambda>d. (- 1, d)),
     fp_xiaomi_init_protocol = (\<lambda>d. (- 1, d)), query_device_info = (\<lambda>d. (- 1, d)),
     fp_xiaomi_initialize = (\<lambda>d. (- 1, d)), msleep = (\<lambda>n d. d)\<rparr>"

text \<open>A kernel whose bulk messages all time out, and one whose bulk messages all
  transfer every byte; their clocks read 1000.\<close>

definition timeout_env :: usb_env where
  "timeout_env =
    \<lparr>usb_bulk_msg = (\<lambda>h p b l. (- 110, 0, b)), jiffies = (\<lambda>h. 1000),
     request_firmware = (\<lambda>h n. - 2)\<rparr>"

definition ok_env :: usb_env where
  "ok_env =
    \<lparr>usb_bulk_msg = (\<lambda>h p b l. (0, nat l, b)), jiffies = (\<lambda>h. 1000),
     request_firmware = (\<lambda>h n. - 2)\<rparr>"

text \<open>The open session after one close: the handle is freed.\<close>

definition closed_session :: lib_world where
  "closed_session =
    \<lparr>heap = (\<lambda>a. None), errno = 0,
     calls = [Pthread_cancel 42, Pthread_join 42, Close_fd 3, Free 1]\<rparr>"

section \<open>Properties\<close>

declare hardware_reset_loop.simps [simp del]
declare communication_recovery_loop.simps [simp del]
declare init_loop.simps [simp del]
declare list_loop.simps [simp del]
declare dec.simps [simp del]

lemmas errno_defs =
  EIO_def ENOMEM_def EFAULT_def EBUSY_def ENODEV_def EINVAL_def EPIPE_def ECOMM_def
  ETIMEDOUT_def

subsection \<open>Recovery runs\<close>

text \<open>
  C1. A run that completes (the flag was set, the context's device exists) clears the
  flag. When the strategy failed the attempt counter is one more than before, and if
  that makes it 3 or more the device state is Error (5) and \<^verbatim>\<open>device_failed\<close> is
  set; below 3 the device is as the strategy left it. When the strategy succeeded the
  attempt counter is 0 and the success counter is one more than the strategy left it. In
  any world whose counter is 3 or more, every call of the trigger returns an error and
  the world unchanged: no run starts while the counter stays there.
\<close>

theorem recovery_run_accounting:
  assumes c: "g_recovery_ctx w = Some ctx" and busy: "recovery_in_progress ctx"
    and p: "dev ctx = Some p" and d: "devices w p = Some d"
    and run: "recovery_strategy hw (last_error ctx) d = (ret, d1)"
  shows "(\<exists>ctx' d'.
            fp_recovery_work_func hw w
              = Some (w\<lparr>g_recovery_ctx := Some ctx', devices := (devices w)(p \<mapsto> d')\<rparr>)
          \<and> \<not> recovery_in_progress ctx'
          \<and> (ret \<noteq> 0 \<longrightarrow>
                recovery_attempts ctx' = recovery_attempts ctx + 1
              \<and> (3 \<le>s recovery_attempts ctx' \<longrightarrow>
                    rdev_state d' = STATE_ERROR \<and> device_failed d')
              \<and> (recovery_attempts ctx' <s 3 \<longrightarrow> d' = d1))
          \<and> (ret = 0 \<longrightarrow>
                recovery_attempts ctx' = 0 \<and> recovery_count d' = recovery_count d1 + 1))
       \<and> (\<forall>v cv dp e.
             g_recovery_ctx v = Some cv \<and> 3 \<le>s recovery_attempts cv \<longrightarrow>
               fst (fp_xiaomi_trigger_recovery v dp e) < 0
             \<and> snd (fp_xiaomi_trigger_recovery v dp e) = v)"
proof (intro conjI)
  show "\<forall>v cv dp e.
          g_recovery_ctx v = Some cv \<and> 3 \<le>s recovery_attempts cv \<longrightarrow>
            fst (fp_xiaomi_trigger_recovery v dp e) < 0
          \<and> snd (fp_xiaomi_trigger_recovery v dp e) = v"
    by (simp add: fp_xiaomi_trigger_recovery_def FP_RECOVERY_MAX_ATTEMPTS_def errno_defs)
next
  let ?c = "ctx\<lparr>recovery_work := False\<rparr>"
  show "\<exists>ctx' d'.
            fp_recovery_work_func hw w
              = Some (w\<lparr>g_recovery_ctx := Some ctx', devices := (devices w)(p \<mapsto> d')\<rparr>)
          \<and> \<not> recovery_in_progress ctx'
          \<and> (ret \<noteq> 0 \<longrightarrow>
                recovery_attempts ctx' = recovery_attempts ctx + 1
              \<and> (3 \<le>s recovery_attempts ctx' \<longrightarrow>
                    rdev_state d' = STATE_ERROR \<and> device_failed d')
              \<and> (recovery_attempts ctx' <s 3 \<longrightarrow> d' = d1))
          \<and> (ret = 0 \<longrightarrow>
                recovery_attempts ctx' = 0 \<and> recovery_count d' = recovery_count d1 + 1)"
  proof (cases "ret = 0")
    case True
    with c busy p d run show ?thesis
      by (intro exI [of _ "?c\<lparr>recovery_attempts := 0, recovery_in_progress := False\<rparr>"]
                exI [of _ "d1\<lparr>recovery_count := recovery_count d1 + 1\<rparr>"])
         (simp add: fp_recovery_work_func_def)
  next
    case False
    let ?a = "recovery_attempts ctx + 1"
    from False c busy p d run show ?thesis
      by (intro exI [of _ "?c\<lparr>recovery_attempts := ?a, recovery_in_progress := False\<rparr>"]
                exI [of _ "if 3 \<le>s ?a
                           then d1\<lparr>rdev_state := STATE_ERROR, device_failed := True\<rparr>
                           else d1"])
         (simp add: fp_recovery_work_func_def Let_def FP_RECOVERY_MAX_ATTEMPTS_def
                    signed.not_le)
  qed
qed

lemma dead_run: "recovery_strategy dead_hw FP_ERROR_HARDWARE_FAILURE idle_rdev = (- 5, idle_rdev)"
  by (simp add: fp_hardware_reset_sequence_def hardware_reset_loop.simps dead_hw_def
      FP_RECOVERY_MAX_ATTEMPTS_def EIO_def)


theorem recovery_run_accounting_witness:
  "g_recovery_ctx busy_world = Some busy_ctx \<and> recovery_in_progress busy_ctx
   \<and> dev busy_ctx = Some 1 \<and> devices busy_world 1 = Some idle_rdev
   \<and> recovery_strategy dead_hw (last_error busy_ctx) idle_rdev = (- 5, idle_rdev)
   \<and> (\<exists>ctx' d'.
         fp_recovery_work_func dead_hw busy_world
           = Some (busy_world\<lparr>g_recovery_ctx := Some ctx',
                              devices := (devices busy_world)(1 \<mapsto> d')\<rparr>)
       \<and> recovery_attempts ctx' = 3 \<and> rdev_state d' = 5 \<and> device_failed d'
       \<and> fst (fp_xiaomi_trigger_recovery
                 (busy_world\<lparr>g_recovery_ctx := Some ctx',
                              devices := (devices busy_world)(1 \<mapsto> d')\<rparr>)
                 (Some 1) FP_ERROR_HARDWARE_FAILURE) < 0)"
proof -
  have h1: "g_recovery_ctx busy_world = Some busy_ctx"
    by (simp add: busy_world_def)
  have h2: "recovery_in_progress busy_ctx"
    by (simp add: busy_ctx_def)
  have h3: "dev busy_ctx = Some 1"
    by (simp add: busy_ctx_def)
  have h4: "devices busy_world 1 = Some idle_rdev"
    by (simp add: busy_world_def)
  have h5: "recovery_strategy dead_hw (last_error busy_ctx) idle_rdev = (- 5, idle_rdev)"
    using dead_run by (simp add: busy_ctx_def)
  have a: "recovery_attempts busy_ctx + 1 = 3"
    by (simp add: busy_ctx_def)
  have n: "(- 5 :: int) \<noteq> 0"
    by simp
  note T = recovery_run_accounting [OF h1 h2 h3 h4 h5]
  from T [THEN conjunct1] n obtain ctx' d' where
    run: "fp_recovery_work_func dead_hw busy_world
           = Some (busy_world\<lparr>g_recovery_ctx := Some ctx',
                              devices := (devices busy_world)(1 \<mapsto> d')\<rparr>)"
    and att0: "recovery_attempts ctx' = recovery_attempts busy_ctx + 1"
    and err0: "3 \<le>s recovery_attempts ctx' \<longrightarrow>
                 rdev_state d' = STATE_ERROR \<and> device_failed d'"
    by blast
  from att0 a have att: "recovery_attempts ctx' = 3"
    by simp
  with err0 have err: "rdev_state d' = STATE_ERROR" "device_failed d'"
    by simp_all
  have rej: "g_recovery_ctx v = Some cv \<Longrightarrow> 3 \<le>s recovery_attempts cv
                \<Longrightarrow> fst (fp_xiaomi_trigger_recovery v dp e) < 0" for v cv dp e
    using T [THEN conjunct2] by blast
  have "fst (fp_xiaomi_trigger_recovery
                 (busy_world\<lparr>g_recovery_ctx := Some ctx',
                              devices := (devices busy_world)(1 \<mapsto> d')\<rparr>)
                 (Some 1) FP_ERROR_HARDWARE_FAILURE) < 0"
    by (rule rej [of _ ctx']) (simp_all add: att)
  with h1 h2 h3 h4 h5 run att err show ?thesis
    unfolding STATE_ERROR_def by blast
qed

subsection \<open>Recovery trigger and the recovery lock\<close>













subsection \<open>Transport\<close>

lemma transfer_error_action_device:
  "device (transfer_error_action env ret p w) =
     (if ret = - ENODEV
      then (device w)\<lparr>state := FP_STATE_DISCONNECTED, last_activity := jiffies env (trace w)\<rparr>
      else device w)"
  by (simp add: transfer_error_action_def fp_xiaomi_set_state_def Let_def errno_defs)

lemma transfer_error_action_trace:
  "trace (transfer_error_action env ret p w) =
     (if ret = - ENODEV
      then trace w @ [State_transition (state (device w)) FP_STATE_DISCONNECTED, Wake_up_read,
                      Wake_up_write]
      else if ret = - EPIPE then trace w @ [Usb_clear_halt p]
      else trace w)"
  by (simp add: transfer_error_action_def fp_xiaomi_set_state_def Let_def errno_defs)

lemma bulk_transfer_cases:
  assumes "fp_xiaomi_bulk_transfer env w dp buffer len ep wr = (r, b, w')"
  obtains
    (rejected) "r = - EINVAL" "w' = w" "b = buffer"
      "dp = NULL \<or> buffer = None \<or> len \<le> 0"
  | (gone) "r = - ENODEV" "w' = w" "b = buffer"
      "state (device w) = FP_STATE_DISCONNECTED"
  | (failed) buf ret actual buf' where
      "dp = Dev" "buffer = Some buf" "0 < len" "state (device w) \<noteq> FP_STATE_DISCONNECTED"
      "usb_bulk_msg env (trace w) (wr, ep) buf len = (ret, actual, buf')" "ret < 0"
      "r = ret" "b = Some buf'"
      "w' = transfer_error_action env ret (wr, ep)
              (w\<lparr>trace := trace w @ [Usb_bulk_msg (wr, ep) buf len FP_XIAOMI_TIMEOUT_MS],
                 device := (device w)\<lparr>error_count := error_count (device w) + 1\<rparr>\<rparr>)"
  | (partial) buf ret actual buf' where
      "dp = Dev" "buffer = Some buf" "0 < len" "state (device w) \<noteq> FP_STATE_DISCONNECTED"
      "usb_bulk_msg env (trace w) (wr, ep) buf len = (ret, actual, buf')" "0 \<le> ret"
      "int actual \<noteq> len" "wr" "r = - EIO" "b = Some buf'"
      "w' = w\<lparr>trace := trace w @ [Usb_bulk_msg (wr, ep) buf len FP_XIAOMI_TIMEOUT_MS]\<rparr>"
  | (complete) buf ret actual buf' where
      "dp = Dev" "buffer = Some buf" "0 < len" "state (device w) \<noteq> FP_STATE_DISCONNECTED"
      "usb_bulk_msg env (trace w) (wr, ep) buf len = (ret, actual, buf')" "0 \<le> ret"
      "int actual = len \<or> \<not> wr" "r = int actual" "b = Some buf'"
      "w' = w\<lparr>trace := trace w @ [Usb_bulk_msg (wr, ep) buf len FP_XIAOMI_TIMEOUT_MS]\<rparr>"
proof (cases "dp = NULL \<or> buffer = None \<or> len \<le> 0")
  case True
  with assms have "r = - EINVAL \<and> w' = w \<and> b = buffer"
    by (auto simp: fp_xiaomi_bulk_transfer_def split: dev_ptr.splits option.splits)
  with True rejected show ?thesis by blast
next
  case False
  then obtain buf where ok: "dp = Dev" "buffer = Some buf" "0 < len"
    by (cases dp; cases buffer) auto
  show ?thesis
  proof (cases "state (device w) = FP_STATE_DISCONNECTED")
    case True
    with assms ok have "r = - ENODEV \<and> w' = w \<and> b = buffer"
      by (simp add: fp_xiaomi_bulk_transfer_def fp_xiaomi_get_state_def)
    with True gone show ?thesis by blast
  next
    case live: False
    obtain ret actual buf' where
      reply: "usb_bulk_msg env (trace w) (wr, ep) buf len = (ret, actual, buf')"
      by (cases "usb_bulk_msg env (trace w) (wr, ep) buf len") auto
    show ?thesis
    proof (cases "ret < 0")
      case True
      with assms ok live reply show ?thesis
        by (intro failed [of buf ret actual buf'])
           (auto simp add: fp_xiaomi_bulk_transfer_def fp_xiaomi_get_state_def Let_def)
    next
      case nonneg: False
      show ?thesis
      proof (cases "int actual \<noteq> len \<and> wr")
        case True
        with assms ok live reply nonneg show ?thesis
          by (intro partial [of buf ret actual buf'])
             (auto simp add: fp_xiaomi_bulk_transfer_def fp_xiaomi_get_state_def Let_def)
      next
        case False
        with assms ok live reply nonneg show ?thesis
          by (intro complete [of buf ret actual buf'])
             (auto simp add: fp_xiaomi_bulk_transfer_def fp_xiaomi_get_state_def Let_def)
      qed
    qed
  qed
qed

text \<open>
  C4. A write that the USB core completes (the call is made, its return value is not
  negative) with fewer bytes than asked for returns \<^verbatim>\<open>-EIO\<close>, never a count.
\<close>

theorem partial_write_is_io_error:
  assumes "0 < len" and "fp_xiaomi_get_state w \<noteq> FP_STATE_DISCONNECTED"
    and "usb_bulk_msg env (trace w) (True, endpoint) buf len = (ret, actual, buf')"
    and "0 \<le> ret" and "int actual < len"
  shows "fst (fp_xiaomi_bulk_transfer env w Dev (Some buf) len endpoint True) = - EIO
       \<and> fst (fp_xiaomi_bulk_transfer env w Dev (Some buf) len endpoint True) < 0"
  using assms by (simp add: fp_xiaomi_bulk_transfer_def Let_def EIO_def)

theorem partial_write_is_io_error_witness:
  "fp_xiaomi_get_state ready_world \<noteq> FP_STATE_DISCONNECTED
   \<and> usb_bulk_msg short_env (trace ready_world) (True, 2) [1, 2] 2 = (0, 1, [1, 2])
   \<and> fst (fp_xiaomi_bulk_transfer short_env ready_world Dev (Some [1, 2]) 2 2 True) = - 5"
proof -
  have s: "fp_xiaomi_get_state ready_world \<noteq> FP_STATE_DISCONNECTED"
    by (simp add: fp_xiaomi_get_state_def ready_world_def ready_device_def)
  have u: "usb_bulk_msg short_env (trace ready_world) (True, 2) [1, 2] 2 = (0, 1, [1, 2])"
    by (simp add: short_env_def)
  from partial_write_is_io_error [OF _ s u] s u
  show ?thesis by (simp add: EIO_def)
qed

text \<open>
  C5. For a bulk transfer that returns an error: the state changes only when the error
  is \<^verbatim>\<open>-ENODEV\<close>, and then (as whenever \<^verbatim>\<open>-ENODEV\<close> is returned) the state is
  Disconnected; a transfer that returns \<^verbatim>\<open>-ETIMEDOUT\<close> leaves the device structure as it
  was but for the error counter, one higher, and adds only the bulk message to the trace;
  one that returns \<^verbatim>\<open>-EPIPE\<close> keeps the state and clears the halt on the pipe after
  the bulk message. When the USB core is asked and reports an error, that error is what
  is returned.
\<close>

theorem failed_transfer_effects:
  assumes call: "fp_xiaomi_bulk_transfer env w dp buffer len ep wr = (r, b, w')"
    and fails: "r < 0"
  shows "(state (device w') \<noteq> state (device w) \<longrightarrow>
            r = - ENODEV \<and> state (device w') = FP_STATE_DISCONNECTED)
       \<and> (r = - ENODEV \<longrightarrow> state (device w') = FP_STATE_DISCONNECTED)
       \<and> (r = - ETIMEDOUT \<longrightarrow>
            device w' = (device w)\<lparr>error_count := error_count (device w) + 1\<rparr>
          \<and> (\<exists>buf. trace w' = trace w @ [Usb_bulk_msg (wr, ep) buf len FP_XIAOMI_TIMEOUT_MS]))
       \<and> (r = - EPIPE \<longrightarrow>
            state (device w') = state (device w)
          \<and> (\<exists>buf. trace w' = trace w @ [Usb_bulk_msg (wr, ep) buf len FP_XIAOMI_TIMEOUT_MS,
                                          Usb_clear_halt (wr, ep)]))
       \<and> (\<forall>buf. dp = Dev \<and> buffer = Some buf \<and> 0 < len
                \<and> state (device w) \<noteq> FP_STATE_DISCONNECTED
                \<and> fst (usb_bulk_msg env (trace w) (wr, ep) buf len) < 0
              \<longrightarrow> r = fst (usb_bulk_msg env (trace w) (wr, ep) buf len))"
  using call
proof (cases rule: bulk_transfer_cases)
  case rejected
  then show ?thesis by (auto simp add: errno_defs)
next
  case gone
  then show ?thesis by (auto simp add: errno_defs)
next
  case (failed buf ret actual buf')
  then show ?thesis
    by (auto simp add: transfer_error_action_device transfer_error_action_trace errno_defs)
next
  case (partial buf ret actual buf')
  then show ?thesis by (auto simp add: errno_defs)
next
  case (complete buf ret actual buf')
  with fails show ?thesis by (auto simp add: errno_defs)
qed

text \<open>
  C8, as the code has it. A bulk transfer that succeeds leaves the whole device
  structure, \<^verbatim>\<open>last_activity\<close> included, as it was. A transfer changes
  \<^verbatim>\<open>last_activity\<close> only when it returns \<^verbatim>\<open>-ENODEV\<close> from a device that was not
  Disconnected, through the state transition; it is \<^verbatim>\<open>fp_xiaomi_set_state\<close> that stamps
  the clock, on every transition.
\<close>

theorem transfer_last_activity:
  assumes call: "fp_xiaomi_bulk_transfer env w dp buffer len ep wr = (r, b, w')"
  shows "(0 \<le> r \<longrightarrow> device w' = device w)
       \<and> (last_activity (device w') \<noteq> last_activity (device w) \<longrightarrow>
            r = - ENODEV \<and> state (device w') = FP_STATE_DISCONNECTED
          \<and> state (device w) \<noteq> FP_STATE_DISCONNECTED)
       \<and> last_activity (device (fp_xiaomi_set_state env s w)) = jiffies env (trace w)"
  using call
proof (cases rule: bulk_transfer_cases)
  case rejected
  then show ?thesis by (auto simp add: errno_defs fp_xiaomi_set_state_def Let_def)
next
  case gone
  then show ?thesis by (auto simp add: errno_defs fp_xiaomi_set_state_def Let_def)
next
  case (failed buf ret actual buf')
  then show ?thesis
    by (auto simp add: transfer_error_action_device errno_defs fp_xiaomi_set_state_def Let_def)
next
  case (partial buf ret actual buf')
  then show ?thesis by (auto simp add: errno_defs fp_xiaomi_set_state_def Let_def)
next
  case (complete buf ret actual buf')
  then show ?thesis by (auto simp add: errno_defs fp_xiaomi_set_state_def Let_def)
qed

text \<open>
  C8 as stated fails: a two-byte write succeeds at clock 1000 and \<^verbatim>\<open>last_activity\<close> is
  still 0.
\<close>

theorem successful_transfer_counterexample:
  "fst (fp_xiaomi_bulk_transfer ok_env ready_world Dev (Some [1, 2]) 2 2 True) = 2
   \<and> jiffies ok_env (trace ready_world) = 1000
   \<and> last_activity (device ready_world) = 0
   \<and> last_activity
        (device (snd (snd (fp_xiaomi_bulk_transfer ok_env ready_world Dev (Some [1, 2]) 2 2
                             True)))) = 0"
  by (simp add: fp_xiaomi_bulk_transfer_def fp_xiaomi_get_state_def ok_env_def
      ready_world_def ready_device_def Let_def)

theorem transfer_last_activity_witness:
  "fp_xiaomi_bulk_transfer ok_env ready_world Dev (Some [1, 2]) 2 2 True
     = (2, Some [1, 2],
        ready_world\<lparr>trace := [Usb_bulk_msg (True, 2) [1, 2] 2 FP_XIAOMI_TIMEOUT_MS]\<rparr>)
   \<and> device (ready_world\<lparr>trace := [Usb_bulk_msg (True, 2) [1, 2] 2 FP_XIAOMI_TIMEOUT_MS]\<rparr>)
       = device ready_world"
proof -
  have c: "fp_xiaomi_bulk_transfer ok_env ready_world Dev (Some [1, 2]) 2 2 True
     = (2, Some [1, 2],
        ready_world\<lparr>trace := [Usb_bulk_msg (True, 2) [1, 2] 2 FP_XIAOMI_TIMEOUT_MS]\<rparr>)"
    by (simp add: fp_xiaomi_bulk_transfer_def fp_xiaomi_get_state_def ok_env_def
        ready_world_def ready_device_def Let_def)
  from transfer_last_activity [OF c] c show ?thesis by simp
qed

theorem failed_transfer_effects_witness:
  "fp_xiaomi_bulk_transfer timeout_env ready_world Dev (Some [1, 2]) 2 2 True
     = (- 110, Some [1, 2],
        ready_world\<lparr>trace := [Usb_bulk_msg (True, 2) [1, 2] 2 FP_XIAOMI_TIMEOUT_MS],
                    device := ready_device\<lparr>error_count := 1\<rparr>\<rparr>)
   \<and> device (ready_world\<lparr>trace := [Usb_bulk_msg (True, 2) [1, 2] 2 FP_XIAOMI_TIMEOUT_MS],
                    device := ready_device\<lparr>error_count := 1\<rparr>\<rparr>)
       = (device ready_world)\<lparr>error_count := error_count (device ready_world) + 1\<rparr>"
proof -
  have c: "fp_xiaomi_bulk_transfer timeout_env ready_world Dev (Some [1, 2]) 2 2 True
     = (- 110, Some [1, 2],
        ready_world\<lparr>trace := [Usb_bulk_msg (True, 2) [1, 2] 2 FP_XIAOMI_TIMEOUT_MS],
                    device := ready_device\<lparr>error_count := 1\<rparr>\<rparr>)"
    by (simp add: fp_xiaomi_bulk_transfer_def fp_xiaomi_get_state_def timeout_env_def
        ready_world_def ready_device_def Let_def transfer_error_action_def errno_defs)
  have n: "(- 110 :: int) < 0" by simp
  from failed_transfer_effects [OF c n] c show ?thesis
    by (simp add: errno_defs)
qed

subsection \<open>Initialisation work\<close>

lemma state_changes_append:
  "state_changes (xs @ ys) = state_changes xs @ state_changes ys"
  by (induction xs rule: state_changes.induct) auto

lemma bulk_transfer_frame:
  assumes "fp_xiaomi_bulk_transfer env w dp buffer len ep wr = (r, b, w')"
  shows "retry_count (device w') = retry_count (device w)"
    and "0 \<le> r \<Longrightarrow> device w' = device w"
    and "0 \<le> r \<Longrightarrow> state_changes (trace w') = state_changes (trace w)"
  using assms
  by (cases rule: bulk_transfer_cases;
      simp add: transfer_error_action_device state_changes_append errno_defs)+

lemma load_firmware_frame:
  assumes "fp_xiaomi_load_firmware env w = (r, w')"
  shows "r = 0" and "retry_count (device w') = retry_count (device w)"
    and "state (device w') = state (device w)"
    and "state_changes (trace w') = state_changes (trace w)"
  using assms
  by (auto simp add: fp_xiaomi_load_firmware_def Let_def state_changes_append
      split: if_splits)

lemma get_device_info_frame:
  assumes "fp_xiaomi_get_device_info env w = (r, w')"
  shows "retry_count (device w') = retry_count (device w)"
    and "0 \<le> r \<Longrightarrow> state (device w') = state (device w)"
    and "0 \<le> r \<Longrightarrow> state_changes (trace w') = state_changes (trace w)"
proof -
  obtain r1 b1 w1 where
    t1: "fp_xiaomi_bulk_transfer env w Dev (Some (1 # replicate 15 0)) 16 FP_BULK_OUT_EP True
           = (r1, b1, w1)"
    using prod_cases3 by blast
  obtain r2 b2 w2 where
    t2: "fp_xiaomi_bulk_transfer env w1 Dev (Some (replicate 64 0)) 64 FP_BULK_IN_EP False
           = (r2, b2, w2)"
    using prod_cases3 by blast
  note f1 = bulk_transfer_frame [OF t1] and f2 = bulk_transfer_frame [OF t2]
  from assms t1 t2 f1(1) f2(1) show "retry_count (device w') = retry_count (device w)"
    by (auto simp add: fp_xiaomi_get_device_info_def Let_def parse_device_info_def
        split: if_splits)
  assume "0 \<le> r"
  with assms t1 t2 f1 f2 show "state (device w') = state (device w)"
    by (auto simp add: fp_xiaomi_get_device_info_def Let_def parse_device_info_def
        split: if_splits)
  from \<open>0 \<le> r\<close> assms t1 t2 f1 f2
  show "state_changes (trace w') = state_changes (trace w)"
    by (auto simp add: fp_xiaomi_get_device_info_def Let_def parse_device_info_def
        split: if_splits)
qed

lemma init_pass_frame:
  assumes "init_pass env w = (r, w')"
  shows "retry_count (device w') = retry_count (device w)"
    and "0 \<le> r \<Longrightarrow> state (device w') = state (device w)"
    and "0 \<le> r \<Longrightarrow> state_changes (trace w') = state_changes (trace w)"
proof -
  obtain r0 w0 where l: "fp_xiaomi_load_firmware env w = (r0, w0)"
    by (cases "fp_xiaomi_load_firmware env w") auto
  note lf = load_firmware_frame [OF l]
  from assms l lf have g: "fp_xiaomi_get_device_info env w0 = (r, w')"
    by (simp add: init_pass_def)
  note gf = get_device_info_frame [OF g]
  from lf gf show "retry_count (device w') = retry_count (device w)"
    by simp
  assume "0 \<le> r"
  with lf gf show "state (device w') = state (device w)"
    and "state_changes (trace w') = state_changes (trace w)"
    by simp_all
qed

text \<open>
  C6. Name the passes the work can make: the first on the world just set to
  Initializing, each later one after the retry step of the one before. If the first pass
  succeeds the work ends in Ready after it and the transitions it has logged are the old
  state to Initializing, then Initializing to Ready. If any of the three succeeds the
  final state is Ready. If all three fail the work stops after the third retry step
  with the state Error, the device's retry counter three higher: there is no fourth pass.
\<close>

theorem init_work_outcome:
  assumes p1: "init_pass env (fp_xiaomi_set_state env FP_STATE_INITIALIZING w) = (r1, v1)"
    and p2: "init_pass env (init_retry v1) = (r2, v2)"
    and p3: "init_pass env (init_retry v2) = (r3, v3)"
  shows "(0 \<le> r1 \<longrightarrow>
            fp_xiaomi_init_work env w = fp_xiaomi_set_state env FP_STATE_READY v1
          \<and> state_changes (trace (fp_xiaomi_init_work env w))
              = state_changes (trace w)
                @ [(state (device w), FP_STATE_INITIALIZING),
                   (FP_STATE_INITIALIZING, FP_STATE_READY)])
       \<and> (0 \<le> r1 \<or> 0 \<le> r2 \<or> 0 \<le> r3 \<longrightarrow>
            state (device (fp_xiaomi_init_work env w)) = FP_STATE_READY)
       \<and> (r1 < 0 \<and> r2 < 0 \<and> r3 < 0 \<longrightarrow>
            fp_xiaomi_init_work env w
              = fp_xiaomi_set_state env FP_STATE_ERROR (init_retry v3)
          \<and> state (device (fp_xiaomi_init_work env w)) = FP_STATE_ERROR
          \<and> retry_count (device (fp_xiaomi_init_work env w)) = retry_count (device w) + 3)"
proof -
  let ?w0 = "fp_xiaomi_set_state env FP_STATE_INITIALIZING w"
  have u0: "fp_xiaomi_init_work env w =
              (if r1 < 0 then init_loop env (Suc 0) (init_retry v1)
               else fp_xiaomi_set_state env FP_STATE_READY v1)"
    using p1 unfolding fp_xiaomi_init_work_def
    by (subst init_loop.simps) (simp add: FP_XIAOMI_RETRY_COUNT_def)
  have u1: "init_loop env (Suc 0) (init_retry v1) =
              (if r2 < 0 then init_loop env (Suc (Suc 0)) (init_retry v2)
               else fp_xiaomi_set_state env FP_STATE_READY v2)"
    using p2 by (subst init_loop.simps) (simp add: FP_XIAOMI_RETRY_COUNT_def)
  have u2: "init_loop env (Suc (Suc 0)) (init_retry v2) =
              (if r3 < 0 then init_loop env (Suc (Suc (Suc 0))) (init_retry v3)
               else fp_xiaomi_set_state env FP_STATE_READY v3)"
    using p3 by (subst init_loop.simps) (simp add: FP_XIAOMI_RETRY_COUNT_def)
  have u3: "init_loop env (Suc (Suc (Suc 0))) (init_retry v3)
              = fp_xiaomi_set_state env FP_STATE_ERROR (init_retry v3)"
    by (subst init_loop.simps) (simp add: FP_XIAOMI_RETRY_COUNT_def)
  have st: "state (device (fp_xiaomi_set_state env s x)) = s" for s x
    by (simp add: fp_xiaomi_set_state_def Let_def)
  have rc: "retry_count (device (fp_xiaomi_set_state env s x)) = retry_count (device x)"
    for s x
    by (simp add: fp_xiaomi_set_state_def Let_def)
  have tr: "state_changes (trace (fp_xiaomi_set_state env s x))
              = state_changes (trace x) @ [(state (device x), s)]" for s x
    by (simp add: fp_xiaomi_set_state_def Let_def state_changes_append)
  have ri: "retry_count (device (init_retry x)) = retry_count (device x) + 1" for x
    by (simp add: init_retry_def)
  note f1 = init_pass_frame [OF p1] and f2 = init_pass_frame [OF p2]
    and f3 = init_pass_frame [OF p3]
  have first: "0 \<le> r1 \<longrightarrow>
            fp_xiaomi_init_work env w = fp_xiaomi_set_state env FP_STATE_READY v1
          \<and> state_changes (trace (fp_xiaomi_init_work env w))
              = state_changes (trace w)
                @ [(state (device w), FP_STATE_INITIALIZING),
                   (FP_STATE_INITIALIZING, FP_STATE_READY)]"
    using u0 f1 by (simp add: tr st)
  have some: "0 \<le> r1 \<or> 0 \<le> r2 \<or> 0 \<le> r3 \<longrightarrow>
            state (device (fp_xiaomi_init_work env w)) = FP_STATE_READY"
    using u0 u1 u2 by (auto simp add: st)
  have none: "r1 < 0 \<and> r2 < 0 \<and> r3 < 0 \<longrightarrow>
            fp_xiaomi_init_work env w
              = fp_xiaomi_set_state env FP_STATE_ERROR (init_retry v3)
          \<and> state (device (fp_xiaomi_init_work env w)) = FP_STATE_ERROR
          \<and> retry_count (device (fp_xiaomi_init_work env w)) = retry_count (device w) + 3"
    using u0 u1 u2 u3 f1(1) f2(1) f3(1) by (simp add: st rc ri)
  from first some none show ?thesis by blast
qed


theorem init_work_outcome_witness:
  "0 \<le> fst (init_pass ok_env (fp_xiaomi_set_state ok_env FP_STATE_INITIALIZING unplugged_world))
   \<and> state (device (fp_xiaomi_init_work ok_env unplugged_world)) = FP_STATE_READY
   \<and> state_changes (trace (fp_xiaomi_init_work ok_env unplugged_world))
       = [(FP_STATE_DISCONNECTED, FP_STATE_INITIALIZING),
          (FP_STATE_INITIALIZING, FP_STATE_READY)]"
proof -
  have e: "fst (init_pass ok_env
                 (fp_xiaomi_set_state ok_env FP_STATE_INITIALIZING unplugged_world)) = 0"
    by (simp add: init_pass_def fp_xiaomi_load_firmware_def fp_xiaomi_get_device_info_def
        fp_xiaomi_bulk_transfer_def fp_xiaomi_set_state_def fp_xiaomi_get_state_def
        ok_env_def unplugged_world_def ready_world_def ready_device_def Let_def
        FP_BULK_OUT_EP_def FP_BULK_IN_EP_def)
  have s: "state_changes (trace unplugged_world) = []"
    "state (device unplugged_world) = FP_STATE_DISCONNECTED"
    by (simp_all add: unplugged_world_def ready_world_def)
  note T = init_work_outcome [where env = ok_env and w = unplugged_world,
      OF surjective_pairing surjective_pairing surjective_pairing]
  have r: "0 \<le> fst (init_pass ok_env
                 (fp_xiaomi_set_state ok_env FP_STATE_INITIALIZING unplugged_world))"
    using e by simp
  from T [THEN conjunct1, rule_format, OF r, THEN conjunct2] s
  have sc: "state_changes (trace (fp_xiaomi_init_work ok_env unplugged_world))
       = [(FP_STATE_DISCONNECTED, FP_STATE_INITIALIZING),
          (FP_STATE_INITIALIZING, FP_STATE_READY)]"
    by simp
  from T [THEN conjunct2, THEN conjunct1, rule_format, OF disjI1, OF r]
  have st: "state (device (fp_xiaomi_init_work ok_env unplugged_world)) = FP_STATE_READY" .
  from r sc st show ?thesis by blast
qed

subsection \<open>Read and write of the character device\<close>

text \<open>
  C3. Outside Ready, read and write fail with \<^verbatim>\<open>-EINVAL\<close> (NULL device or zero count)
  or \<^verbatim>\<open>-ENODEV\<close> and return the world they were given: the trace has no new bulk
  message and the device, its state included, is as before.
\<close>

theorem read_write_require_ready:
  assumes "state (device w) \<noteq> FP_STATE_READY"
  shows "(\<exists>e. fp_xiaomi_read env w file count user_room = (e, [], w)
              \<and> (e = - EINVAL \<or> e = - ENODEV) \<and> e < 0)
       \<and> (\<exists>e. fp_xiaomi_write env w file user count = (e, w)
              \<and> (e = - EINVAL \<or> e = - ENODEV) \<and> e < 0)"
  using assms
  by (simp add: fp_xiaomi_read_def fp_xiaomi_write_def fp_xiaomi_get_state_def Let_def
      errno_defs)

theorem read_write_require_ready_witness:
  "state (device unplugged_world) \<noteq> FP_STATE_READY
   \<and> fst (fp_xiaomi_read short_env unplugged_world Dev 3 64) < 0
   \<and> snd (snd (fp_xiaomi_read short_env unplugged_world Dev 3 64)) = unplugged_world
   \<and> fst (fp_xiaomi_write short_env unplugged_world Dev [1, 2, 3] 3) < 0
   \<and> snd (fp_xiaomi_write short_env unplugged_world Dev [1, 2, 3] 3) = unplugged_world"
proof -
  have s: "state (device unplugged_world) \<noteq> FP_STATE_READY"
    by (simp add: unplugged_world_def ready_world_def)
  from read_write_require_ready [OF s, of short_env Dev 3 64 "[1, 2, 3]"] s
  show ?thesis by auto
qed

subsection \<open>Session library: timeouts\<close>

lemma submitted_timeouts_append:
  "submitted_timeouts (xs @ ys) = submitted_timeouts xs @ submitted_timeouts ys"
  by (induction xs rule: submitted_timeouts.induct) (auto split: option.splits)

text \<open>
  C10. On an open handle each of enrolment start, verify and identify submits one
  request, and the timeout it carries is 5000 when the caller passed 0 and the caller's
  value otherwise.
\<close>

theorem default_timeout_submitted:
  assumes "heap w a = Some d" and "initialized d"
  shows "(\<exists>r w'. fp_xiaomi_enroll_start env w (Some a) tid name t = Some (r, w')
            \<and> submitted_timeouts (calls w')
                = submitted_timeouts (calls w) @ [if t = 0 then 5000 else t])
       \<and> (\<exists>r w'. fp_xiaomi_verify env w (Some a) tid t = Some (r, w')
            \<and> submitted_timeouts (calls w')
                = submitted_timeouts (calls w) @ [if t = 0 then 5000 else t])
       \<and> (\<exists>r m c w'. fp_xiaomi_identify env w (Some a) mi co t = Some (r, m, c, w')
            \<and> submitted_timeouts (calls w')
                = submitted_timeouts (calls w) @ [if t = 0 then 5000 else t])"
  using assms
  by (simp add: fp_xiaomi_enroll_start_def fp_xiaomi_verify_def fp_xiaomi_identify_def
      FP_TIMEOUT_DEFAULT_def Let_def submitted_timeouts_append split: prod.split)

theorem default_timeout_submitted_witness:
  "heap open_session 1 = Some open_handle \<and> initialized open_handle
   \<and> (\<exists>r w'. fp_xiaomi_verify idle_driver open_session (Some 1) 3 0 = Some (r, w')
         \<and> submitted_timeouts (calls w') = [5000])
   \<and> (\<exists>r w'. fp_xiaomi_enroll_start idle_driver open_session (Some 1) 3 None 0
                = Some (r, w')
         \<and> submitted_timeouts (calls w') = [5000])"
proof -
  have h: "heap open_session 1 = Some open_handle"
    by (simp add: open_session_def)
  have i: "initialized open_handle"
    by (simp add: open_handle_def)
  have c: "submitted_timeouts (calls open_session) = []"
    by (simp add: open_session_def)
  from default_timeout_submitted [OF h i, of idle_driver 3 None 0] h i c
  show ?thesis by simp
qed

subsection \<open>Session library: the template list\<close>

lemma list_loop_result:
  assumes "i \<le> FP_XIAOMI_MAX_TEMPLATES" and "found \<le> cap" and "cap \<le> length ids"
  shows "list_loop dl cap i found ids =
           (let rest = nonzero_slots (map (byte_at dl) [i..<FP_XIAOMI_MAX_TEMPLATES]);
                k = min (cap - found) (length rest)
            in Some (found + k, take found ids @ take k rest @ drop (found + k) ids))"
  using assms
proof (induction dl cap i found ids rule: list_loop.induct)
  case (1 dl cap i found ids)
  show ?case
  proof (cases "i < FP_XIAOMI_MAX_TEMPLATES \<and> found < cap")
    case False
    with "1.prems" have "i = FP_XIAOMI_MAX_TEMPLATES \<or> found = cap"
      by auto
    with False show ?thesis
      by (subst list_loop.simps) (auto simp add: Let_def nonzero_slots_def)
  next
    case True
    then have up: "[i..<FP_XIAOMI_MAX_TEMPLATES] = i # [Suc i..<FP_XIAOMI_MAX_TEMPLATES]"
      by (simp add: upt_conv_Cons)
    show ?thesis
    proof (cases "byte_at dl i = 0")
      case zero: True
      from True zero "1.prems" have
        "list_loop dl cap (i + 1) found ids =
           (let rest = nonzero_slots (map (byte_at dl) [i + 1..<FP_XIAOMI_MAX_TEMPLATES]);
                k = min (cap - found) (length rest)
            in Some (found + k, take found ids @ take k rest @ drop (found + k) ids))"
        by (intro "1.IH"(2)) auto
      with True zero show ?thesis
        by (subst list_loop.simps) (simp add: up nonzero_slots_def Let_def)
    next
      case nz: False
      from True "1.prems" have room: "found < length ids"
        by simp
      let ?ids = "ids[found := byte_at dl i]"
      from True nz room "1.prems" have
        "list_loop dl cap (i + 1) (found + 1) ?ids =
           (let rest = nonzero_slots (map (byte_at dl) [i + 1..<FP_XIAOMI_MAX_TEMPLATES]);
                k = min (cap - (found + 1)) (length rest)
            in Some (found + 1 + k,
                     take (found + 1) ?ids @ take k rest @ drop (found + 1 + k) ?ids))"
        by (intro "1.IH"(1)) auto
      moreover have "take (found + 1) ?ids = take found ids @ [byte_at dl i]"
        using room by (simp add: take_Suc_conv_app_nth)
      moreover have "drop (found + 1 + k) ?ids = drop (found + 1 + k) ids" for k
        by simp
      moreover have "min (cap - found) (Suc n) = Suc (min (cap - (found + 1)) n)" for n
        using True by auto
      ultimately show ?thesis
        using True nz room
        by (subst list_loop.simps) (simp add: up nonzero_slots_def Let_def)
    qed
  qed
qed

text \<open>
  C7, as the code has it. On an open handle whose driver answers the list request with
  ten slots, and with an array of at least the stated capacity, the call succeeds; the
  count it reports is the smaller of the capacity and the number of non-zero slots; the
  array starts with that many of the non-zero slot values, in slot order, and is untouched
  after them. When the capacity is at least the number of non-zero slots these are all
  of them. No reported entry is zero, and the count exceeds neither the capacity nor 10.
\<close>

theorem list_templates_result:
  assumes "heap w a = Some d" and "initialized d"
    and "0 \<le> ioctl env (calls w) (fd d) FP_IOC_LIST_TEMPLATES"
    and "ioctl_driver_list env (calls w @ [Ioctl (fd d) FP_IOC_LIST_TEMPLATES]) = slots"
    and "length slots = FP_XIAOMI_MAX_TEMPLATES"
    and "cap \<le> length ids"
  shows "\<exists>ids' n.
           fp_xiaomi_list_templates env w (Some a) (Some ids) (Some cap)
             = Some (FP_XIAOMI_SUCCESS, Some ids', Some n,
                     w\<lparr>calls := calls w @ [Ioctl (fd d) FP_IOC_LIST_TEMPLATES]\<rparr>)
         \<and> n = min cap (length (nonzero_slots slots))
         \<and> take n ids' = take cap (nonzero_slots slots)
         \<and> drop n ids' = drop n ids
         \<and> (length (nonzero_slots slots) \<le> cap \<longrightarrow> take n ids' = nonzero_slots slots)
         \<and> 0 \<notin> set (take n ids')
         \<and> n \<le> cap \<and> n \<le> 10"
proof -
  let ?nz = "nonzero_slots slots"
  let ?n = "min cap (length ?nz)"
  let ?ids' = "take ?n ?nz @ drop ?n ids"
  have "map (byte_at slots) [0..<length slots] = slots"
    by (rule nth_equalityI) (simp_all add: byte_at_def)
  with assms(5) have m: "map (byte_at slots) [0..<FP_XIAOMI_MAX_TEMPLATES] = slots"
    by simp
  from assms(6) have loop: "list_loop slots cap 0 0 ids = Some (?n, ?ids')"
    by (simp add: list_loop_result m Let_def)
  have len: "length ?nz \<le> 10"
    using assms(5) length_filter_le [of "\<lambda>b. b \<noteq> 0" slots]
    by (simp add: nonzero_slots_def FP_XIAOMI_MAX_TEMPLATES_def)
  have n_le: "?n \<le> length ?nz"
    by simp
  have tk: "take ?n ?ids' = take cap ?nz"
    by (simp add: min_def)
  have dr: "drop ?n ?ids' = drop ?n ids"
    using n_le by simp
  have nozero: "0 \<notin> set (take cap ?nz)"
    using set_take_subset [of cap ?nz] by (auto simp add: nonzero_slots_def)
  from assms loop have call:
    "fp_xiaomi_list_templates env w (Some a) (Some ids) (Some cap)
       = Some (FP_XIAOMI_SUCCESS, Some ?ids', Some ?n,
               w\<lparr>calls := calls w @ [Ioctl (fd d) FP_IOC_LIST_TEMPLATES]\<rparr>)"
    by (simp add: fp_xiaomi_list_templates_def Let_def)
  show ?thesis
    apply (rule exI [of _ ?ids'], rule exI [of _ ?n])
    using call tk dr nozero len by simp
qed

theorem list_templates_result_witness:
  "heap open_session 1 = Some open_handle \<and> initialized open_handle
   \<and> 0 \<le> ioctl idle_driver (calls open_session) (fd open_handle) FP_IOC_LIST_TEMPLATES
   \<and> length [1, 2, 0, 0, 0, 0, 0, 0, 0, 0 :: 8 word] = FP_XIAOMI_MAX_TEMPLATES
   \<and> (\<exists>ids' n.
         fp_xiaomi_list_templates idle_driver open_session (Some 1) (Some [0, 0, 0]) (Some 3)
           = Some (FP_XIAOMI_SUCCESS, Some ids', Some n,
                   open_session\<lparr>calls := calls open_session
                                          @ [Ioctl (fd open_handle) FP_IOC_LIST_TEMPLATES]\<rparr>)
       \<and> n = 2 \<and> take n ids' = [1, 2])"
proof -
  have h1: "heap open_session 1 = Some open_handle"
    by (simp add: open_session_def)
  have h2: "initialized open_handle"
    by (simp add: open_handle_def)
  have h3: "0 \<le> ioctl idle_driver (calls open_session) (fd open_handle)
                  FP_IOC_LIST_TEMPLATES"
    by (simp add: idle_driver_def)
  have h4: "ioctl_driver_list idle_driver
              (calls open_session @ [Ioctl (fd open_handle) FP_IOC_LIST_TEMPLATES])
            = [1, 2, 0, 0, 0, 0, 0, 0, 0, 0]"
    by (simp add: idle_driver_def)
  have h5: "length [1, 2, 0, 0, 0, 0, 0, 0, 0, 0 :: 8 word] = FP_XIAOMI_MAX_TEMPLATES"
    by (simp add: FP_XIAOMI_MAX_TEMPLATES_def)
  have h6: "(3 :: nat) \<le> length [0, 0, 0 :: 8 word]"
    by simp
  have nz: "nonzero_slots [1, 2, 0, 0, 0, 0, 0, 0, 0, 0] = [1, 2]"
    by (simp add: nonzero_slots_def)
  from list_templates_result [OF h1 h2 h3 h4 h5 h6] obtain ids' n where
    call: "fp_xiaomi_list_templates idle_driver open_session (Some 1) (Some [0, 0, 0])
             (Some 3)
           = Some (FP_XIAOMI_SUCCESS, Some ids', Some n,
                   open_session\<lparr>calls := calls open_session
                                          @ [Ioctl (fd open_handle) FP_IOC_LIST_TEMPLATES]\<rparr>)"
    and n: "n = min 3 (length (nonzero_slots [1, 2, 0, 0, 0, 0, 0, 0, 0, 0]))"
    and tk: "take n ids' = take 3 (nonzero_slots [1, 2, 0, 0, 0, 0, 0, 0, 0, 0])"
    by blast
  from n nz have n2: "n = 2"
    by simp
  from tk nz have "take n ids' = [1, 2]"
    by simp
  with h1 h2 h3 h5 call n2 show ?thesis
    by blast
qed

text \<open>
  C7 as stated fails when the capacity is smaller than the number of stored templates:
  with room for one entry and slots 1 and 2 in use, the call reports the single entry 1,
  which is not the list of non-zero slot values.
\<close>

theorem list_templates_capacity_counterexample:
  "fp_xiaomi_list_templates idle_driver open_session (Some 1) (Some [0]) (Some 1)
     = Some (FP_XIAOMI_SUCCESS, Some [1], Some 1,
             open_session\<lparr>calls := [Ioctl 3 FP_IOC_LIST_TEMPLATES]\<rparr>)
   \<and> ioctl_driver_list idle_driver [Ioctl 3 FP_IOC_LIST_TEMPLATES]
       = [1, 2, 0, 0, 0, 0, 0, 0, 0, 0]
   \<and> nonzero_slots [1, 2, 0, 0, 0, 0, 0, 0, 0, 0] = [1, 2]
   \<and> [1] \<noteq> nonzero_slots [1, 2, 0, 0, 0, 0, 0, 0, 0, 0]"
  by (simp add: fp_xiaomi_list_templates_def list_loop.simps idle_driver_def
      open_session_def open_handle_def nonzero_slots_def byte_at_def Let_def
      FP_XIAOMI_MAX_TEMPLATES_def FP_XIAOMI_SUCCESS_def)

subsection \<open>Session library: close\<close>

text \<open>
  C9. The first close of an open session cancels and joins the notification thread,
  closes the descriptor, frees the handle and returns success. The handle is then not
  allocated, and a second close of it follows the freed pointer: it has no result.
\<close>

theorem double_close_use_after_free:
  "fp_xiaomi_close_device open_session (Some 1) = Some (FP_XIAOMI_SUCCESS, closed_session)
   \<and> heap closed_session 1 = None
   \<and> fp_xiaomi_close_device closed_session (Some 1) = None"
  by (simp add: fp_xiaomi_close_device_def open_session_def open_handle_def
      closed_session_def Let_def)

end
